theory Spec2Isabelle
  imports Complex_Main "HOL-Library.AList" "HOL-Library.Word"
begin

section \<open>Python values used by \<^verbatim>\<open>AIOtest.py\<close>\<close>

text \<open>
  A Python \<^verbatim>\<open>str\<close> is a sequence of Unicode code points, so it is modelled as a list of
  natural numbers; \<open>lit\<close> turns a HOL string literal (ASCII) into such a string.
  Only \<^verbatim>\<open>str.strip\<close> looks inside a character: it removes the code points for which
  \<^verbatim>\<open>str.isspace\<close> holds, listed in \<open>isspace\<close> as CPython lists them.
\<close>

type_synonym str = "nat list"

definition lit :: "string \<Rightarrow> str" where
  "lit s = map of_char s"

definition isspace :: "nat \<Rightarrow> bool" where
  "isspace c \<longleftrightarrow>
     (9 \<le> c \<and> c \<le> 13) \<or> (28 \<le> c \<and> c \<le> 32) \<or> c = 133 \<or> c = 160 \<or> c = 5760 \<or>
     (8192 \<le> c \<and> c \<le> 8202) \<or> c = 8232 \<or> c = 8233 \<or> c = 8239 \<or> c = 8287 \<or> c = 12288"

definition strip :: "str \<Rightarrow> str" where
  "strip s = rev (dropWhile isspace (rev (dropWhile isspace s)))"

definition startswith :: "str \<Rightarrow> str \<Rightarrow> bool" where
  "startswith s p \<longleftrightarrow> take (length p) s = p"

text \<open>\<^verbatim>\<open>s.split(" ")\<close>: cut at every single space; two spaces in a row give an empty piece.\<close>

fun split_sp :: "str \<Rightarrow> str list" where
  "split_sp [] = [[]]"
| "split_sp (c # cs) =
     (if c = 32 then [] # split_sp cs
      else (case split_sp cs of w # ws \<Rightarrow> (c # w) # ws | [] \<Rightarrow> [[c]]))"

text \<open>\<^verbatim>\<open>xs[i]\<close> for \<open>i \<ge> 0\<close>: None stands for the IndexError.\<close>

definition index :: "'a list \<Rightarrow> nat \<Rightarrow> 'a option" where
  "index xs i = (if i < length xs then Some (xs ! i) else None)"

text \<open>\<^verbatim>\<open>d.get(k)\<close> on a dict whose values may be \<^verbatim>\<open>None\<close>: a missing key reads as \<^verbatim>\<open>None\<close> too.\<close>

definition dict_get :: "('k \<times> 'v option) list \<Rightarrow> 'k \<Rightarrow> 'v option" where
  "dict_get d k = (case map_of d k of None \<Rightarrow> None | Some v \<Rightarrow> v)"

text \<open>Truthiness of an \<^verbatim>\<open>Optional[str]\<close>: \<^verbatim>\<open>None\<close> and \<^verbatim>\<open>""\<close> are falsy.\<close>

fun truthy :: "str option \<Rightarrow> bool" where
  "truthy None = False"
| "truthy (Some s) = (s \<noteq> [])"

text \<open>
  The exceptions the handlers raise or meet; each carries \<^verbatim>\<open>str(e)\<close>.
  \<open>HTTPException\<close> is FastAPI's (status code and detail), \<open>HTTPError\<close> is
  \<^verbatim>\<open>requests.HTTPError\<close>, \<open>RequestException\<close> stands for every other exception of
  \<^verbatim>\<open>requests\<close> (connection failures, timeouts, a body that is not JSON), and \<open>LibraryError\<close>
  for what PyPDF2, the upload or the chat client raise.
\<close>

datatype exn =
    HTTPException nat str
  | HTTPError str
  | RequestException str
  | AttributeError str
  | TypeError str
  | IndexError str
  | LibraryError str

fun str_of_exn :: "exn \<Rightarrow> str" where
  "str_of_exn (HTTPException c d) = d"
| "str_of_exn (HTTPError m) = m"
| "str_of_exn (RequestException m) = m"
| "str_of_exn (AttributeError m) = m"
| "str_of_exn (TypeError m) = m"
| "str_of_exn (IndexError m) = m"
| "str_of_exn (LibraryError m) = m"

text \<open>
  The messages of the AttributeError for a missing attribute and of the TypeError of a
  \<^verbatim>\<open>for\<close> loop over a value that is not iterable; 39 is the apostrophe.
\<close>

definition has_no_attribute :: "str \<Rightarrow> str \<Rightarrow> str" where
  "has_no_attribute tp attr =
     [39] @ tp @ [39] @ lit '' object has no attribute '' @ [39] @ attr @ [39]"

definition not_iterable :: "str \<Rightarrow> str" where
  "not_iterable tp = [39] @ tp @ [39] @ lit '' object is not iterable''"

section \<open>Users and sessions\<close>

text \<open>
  \<^verbatim>\<open>users\<close> and \<^verbatim>\<open>tokens\<close> are module-level dicts. A dict keeps its keys in insertion
  order and \<^verbatim>\<open>login\<close> iterates over \<^verbatim>\<open>users.items()\<close>, so both are association lists:
  \<^verbatim>\<open>d[k] = v\<close> is \<open>AList.update\<close> (in place for a key that is there, at the end for a new
  one), \<^verbatim>\<open>del d[k]\<close> is \<open>AList.delete\<close>, a lookup is \<open>map_of\<close>.
  A stored user is the dict \<^verbatim>\<open>{"password": ..., "email": ...}\<close>.
\<close>

record user_record =
  stored_password :: str
  stored_email :: "str option"

record UserIn =
  username :: str
  password :: str
  email :: "str option"

record app_state =
  users :: "(str \<times> user_record) list"
  tokens :: "(str \<times> str option) list"

definition init :: app_state where
  "init = \<lparr>users = [], tokens = []\<rparr>"

datatype response =
    Msg str
  | AccessToken str
  | Profile str "str option"

text \<open>The spec's names for the errors of the session manager.\<close>

definition DuplicateUsername :: exn where
  "DuplicateUsername = HTTPException 400 (lit ''Username already exists'')"

definition DuplicateEmail :: exn where
  "DuplicateEmail = HTTPException 400 (lit ''Email already registered'')"

definition InvalidCredentials :: exn where
  "InvalidCredentials = HTTPException 401 (lit ''Invalid username/email or password'')"

definition InvalidAuthHeader :: exn where
  "InvalidAuthHeader = HTTPException 401 (lit ''Invalid auth header'')"

definition InvalidToken :: exn where
  "InvalidToken = HTTPException 401 (lit ''Invalid token'')"

text \<open>
  \<^verbatim>\<open>hash_password\<close> is \<^verbatim>\<open>hashlib.sha256(...).hexdigest()\<close>; the digest is a parameter
  of the handlers that use it.
\<close>

text \<open>\<^verbatim>\<open>any(u.get("email") == e for u in users.values())\<close>\<close>

definition email_registered :: "app_state \<Rightarrow> str option \<Rightarrow> bool" where
  "email_registered st e \<longleftrightarrow> list_ex (\<lambda>u. stored_email u = e) (map snd (users st))"

definition register ::
  "(str \<Rightarrow> str) \<Rightarrow> UserIn \<Rightarrow> app_state \<Rightarrow> (exn + response) \<times> app_state" where
  "register hash_password user st =
     (if username user \<in> set (map fst (users st)) then (Inl DuplicateUsername, st)
      else if truthy (email user) \<and> email_registered st (email user)
      then (Inl DuplicateEmail, st)
      else (Inr (Msg (lit ''User registered'')),
            st\<lparr>users := AList.update (username user)
                  \<lparr>stored_password = hash_password (password user),
                   stored_email = email user\<rparr>
                  (users st)\<rparr>))"

text \<open>
  \<^verbatim>\<open>secrets.token_hex(16)\<close> draws 16 bytes from the operating system and writes each as
  two lower-case hexadecimal digits; the bytes drawn are an input of \<open>login\<close>.
\<close>

definition hexdigit :: "nat \<Rightarrow> nat" where
  "hexdigit n = (if n < 10 then 48 + n else 87 + n)"

definition token_hex :: "8 word list \<Rightarrow> str" where
  "token_hex bs = concat (map (\<lambda>b. [hexdigit (unat b div 16), hexdigit (unat b mod 16)]) bs)"

definition lookup_record :: "(str \<times> user_record) list \<Rightarrow> str \<Rightarrow> user_record option" where
  "lookup_record us name =
     (case map_of us name of
        Some r \<Rightarrow> Some r
      | None \<Rightarrow> find (\<lambda>u. stored_email u = Some name) (map snd us))"

definition login ::
  "(str \<Rightarrow> str) \<Rightarrow> 8 word list \<Rightarrow> UserIn \<Rightarrow> app_state \<Rightarrow> (exn + response) \<times> app_state" where
  "login hash_password rnd user st =
     (let hashed_input = hash_password (password user) in
      case lookup_record (users st) (username user) of
        None \<Rightarrow> (Inl InvalidCredentials, st)
      | Some record \<Rightarrow>
          if stored_password record \<noteq> hashed_input then (Inl InvalidCredentials, st)
          else
            let token = token_hex rnd in
            (Inr (AccessToken token),
             st\<lparr>tokens := AList.update token
                   (map_option fst (find (\<lambda>(k, v). v = record) (users st)))
                   (tokens st)\<rparr>))"

definition profile :: "str \<Rightarrow> app_state \<Rightarrow> (exn + response) \<times> app_state" where
  "profile authorization st =
     (if \<not> startswith authorization (lit ''Bearer '') then (Inl InvalidAuthHeader, st)
      else case index (split_sp authorization) 1 of
        None \<Rightarrow> (Inl (IndexError (lit ''list index out of range'')), st)
      | Some token \<Rightarrow>
          (case dict_get (tokens st) token of
             None \<Rightarrow> (Inl InvalidToken, st)
           | Some name \<Rightarrow>
               if name = [] then (Inl InvalidToken, st)
               else (case map_of (users st) name of
                       None \<Rightarrow> (Inl (AttributeError (has_no_attribute (lit ''NoneType'') (lit ''get''))), st)
                     | Some user \<Rightarrow> (Inr (Profile name (stored_email user)), st))))"

definition logout :: "str \<Rightarrow> app_state \<Rightarrow> (exn + response) \<times> app_state" where
  "logout authorization st =
     (if \<not> startswith authorization (lit ''Bearer '') then (Inl InvalidAuthHeader, st)
      else case index (split_sp authorization) 1 of
        None \<Rightarrow> (Inl (IndexError (lit ''list index out of range'')), st)
      | Some token \<Rightarrow>
          if token \<notin> set (map fst (tokens st)) then (Inl InvalidToken, st)
          else (Inr (Msg (lit ''Logged out successfully'')),
                st\<lparr>tokens := AList.delete token (tokens st)\<rparr>))"

text \<open>A request to one of the four endpoints, and the state after a sequence of them.\<close>

datatype request =
    Register UserIn
  | Login UserIn "8 word list"
  | GetProfile str
  | Logout str

fun handle :: "(str \<Rightarrow> str) \<Rightarrow> request \<Rightarrow> app_state \<Rightarrow> (exn + response) \<times> app_state" where
  "handle h (Register u) st = register h u st"
| "handle h (Login u rnd) st = login h rnd u st"
| "handle h (GetProfile a) st = profile a st"
| "handle h (Logout a) st = logout a st"

fun serve :: "(str \<Rightarrow> str) \<Rightarrow> request list \<Rightarrow> app_state \<Rightarrow> app_state" where
  "serve h [] st = st"
| "serve h (r # rs) st = serve h rs (snd (handle h r st))"

text \<open>The token a request puts into the session map when it succeeds.\<close>

fun issues :: "request \<Rightarrow> str option" where
  "issues (Login u rnd) = Some (token_hex rnd)"
| "issues _ = None"

text \<open>
  The session invariant: every token of the session map is bound to a username (not to
  \<^verbatim>\<open>None\<close>) that is a key of the user store.
\<close>

definition session_inv :: "app_state \<Rightarrow> bool" where
  "session_inv st \<longleftrightarrow>
     list_all (\<lambda>(t, u). case u of None \<Rightarrow> False | Some name \<Rightarrow> name \<in> set (map fst (users st)))
       (tokens st)"

section \<open>Document text extraction\<close>

text \<open>
  PyPDF2 and the upload are outside the program: an upload is given by what the handler
  meets when it reads and parses it. \<^verbatim>\<open>await file.read()\<close> raises or returns bytes;
  \<^verbatim>\<open>PdfReader(io.BytesIO(contents))\<close> raises or opens the container; for each page of
  \<^verbatim>\<open>reader.pages\<close>, in order, \<^verbatim>\<open>page.extract_text()\<close> raises or returns a string or
  \<^verbatim>\<open>None\<close>. Exceptions are given by their message \<^verbatim>\<open>str(e)\<close>.
\<close>

datatype pdf_page =
    ExtractRaises str
  | Extracted "str option"

datatype pdf =
    OpenRaises str
  | Document "pdf_page list"

datatype upload =
    ReadRaises str
  | Contents pdf

text \<open>\<^verbatim>\<open>t or ""\<close>\<close>

fun or_empty :: "str option \<Rightarrow> str" where
  "or_empty None = []"
| "or_empty (Some t) = t"

text \<open>
  \<^verbatim>\<open>"".join(page.extract_text() or "" for page in reader.pages)\<close>: the generator is consumed
  page by page, and the first page that raises ends the join with its exception.
\<close>

fun join_pages :: "pdf_page list \<Rightarrow> exn + str" where
  "join_pages [] = Inr []"
| "join_pages (ExtractRaises m # ps) = Inl (LibraryError m)"
| "join_pages (Extracted t # ps) =
     (case join_pages ps of Inl e \<Rightarrow> Inl e | Inr s \<Rightarrow> Inr (or_empty t @ s))"

text \<open>The first three lines of both handlers' \<^verbatim>\<open>try\<close> blocks.\<close>

definition read_text :: "upload \<Rightarrow> exn + str" where
  "read_text file =
     (case file of
        ReadRaises m \<Rightarrow> Inl (LibraryError m)
      | Contents (OpenRaises m) \<Rightarrow> Inl (LibraryError m)
      | Contents (Document ps) \<Rightarrow> join_pages ps)"

record extraction =
  extracted_text :: str
  warning :: "str option"

text \<open>The spec's MalformedDocument: the one error \<^verbatim>\<open>/extract_pdf_text\<close> answers with.\<close>

definition MalformedDocument :: "exn \<Rightarrow> exn" where
  "MalformedDocument e = HTTPException 500 (lit ''Failed to extract PDF: '' @ str_of_exn e)"

text \<open>
  The answer is \<^verbatim>\<open>{"text": ...}\<close>, with the key \<^verbatim>\<open>"warning"\<close> when nothing was found.
\<close>

definition extract_pdf_text :: "upload \<Rightarrow> exn + extraction" where
  "extract_pdf_text file =
     (case read_text file of
        Inl e \<Rightarrow> Inl (MalformedDocument e)
      | Inr full_text \<Rightarrow>
          if strip full_text \<noteq> [] then Inr \<lparr>extracted_text = full_text, warning = None\<rparr>
          else Inr \<lparr>extracted_text = [], warning = Some (lit ''No extractable text found.'')\<rparr>)"

section \<open>Resume analysis\<close>

text \<open>
  The chat-completion endpoint is outside the program too: \<open>client\<close> maps the request sent
  to what \<^verbatim>\<open>client.chat.completions.create\<close> does, raising or returning a response, of which
  the handler reads \<^verbatim>\<open>response.choices[0].message.content\<close>; a response is given by the
  contents of its choices. The handler's result comes with the list of requests it sent.
\<close>

record chat_request =
  model :: str
  messages :: "(str \<times> str) list"

datatype chat_outcome =
    ChatRaises str
  | ChatCompletion "str option list"

definition analysis_failed :: "exn \<Rightarrow> exn" where
  "analysis_failed e = HTTPException 500 (lit ''Failed to analyze PDF: '' @ str_of_exn e)"

definition no_text_response :: str where
  "no_text_response = lit ''No extractable text found in the PDF.''"

definition first_content :: "chat_outcome \<Rightarrow> exn + str" where
  "first_content r =
     (case r of
        ChatRaises m \<Rightarrow> Inl (LibraryError m)
      | ChatCompletion [] \<Rightarrow> Inl (IndexError (lit ''list index out of range''))
      | ChatCompletion (None # cs) \<Rightarrow>
          Inl (AttributeError (has_no_attribute (lit ''NoneType'') (lit ''strip'')))
      | ChatCompletion (Some content # cs) \<Rightarrow> Inr (strip content))"

definition analyze_pdf ::
  "(chat_request \<Rightarrow> chat_outcome) \<Rightarrow> upload \<Rightarrow> chat_request list \<times> (exn + str)" where
  "analyze_pdf client file =
     (case read_text file of
        Inl e \<Rightarrow> ([], Inl (analysis_failed e))
      | Inr full_text \<Rightarrow>
          if strip full_text = [] then ([], Inr no_text_response)
          else
            let request =
              \<lparr>model = lit ''deepseek-chat'',
               messages =
                 [(lit ''system'',
                   lit ''You are a recruiter AI assistant. Provide feedback on the resume text.''),
                  (lit ''user'', full_text)]\<rparr>
            in ([request],
                case first_content (client request) of
                  Inl e \<Rightarrow> Inl (analysis_failed e)
                | Inr response \<Rightarrow> Inr response))"

section \<open>Normalized job search\<close>

text \<open>
  A decoded JSON value, as \<^verbatim>\<open>response.json()\<close> returns it: a dict is an association list
  with distinct keys. No handler computes with a number; a float is carried as the real
  number it stands for.
\<close>

datatype json =
    JNull
  | JBool bool
  | JInt int
  | JFloat real
  | JStr str
  | JArr "json list"
  | JObj "(str \<times> json) list"

text \<open>\<^verbatim>\<open>type(v).__name__\<close>, as the messages of Python's errors quote it.\<close>

fun type_name :: "json \<Rightarrow> str" where
  "type_name JNull = lit ''NoneType''"
| "type_name (JBool b) = lit ''bool''"
| "type_name (JInt i) = lit ''int''"
| "type_name (JFloat x) = lit ''float''"
| "type_name (JStr s) = lit ''str''"
| "type_name (JArr xs) = lit ''list''"
| "type_name (JObj d) = lit ''dict''"

text \<open>\<^verbatim>\<open>d.get(k, default)\<close> on a dict, and \<^verbatim>\<open>v.get(k, default)\<close> on any decoded value.\<close>

definition get_or :: "(str \<times> json) list \<Rightarrow> str \<Rightarrow> json \<Rightarrow> json" where
  "get_or d k dflt = (case map_of d k of None \<Rightarrow> dflt | Some v \<Rightarrow> v)"

definition json_get :: "json \<Rightarrow> str \<Rightarrow> json \<Rightarrow> exn + json" where
  "json_get v k dflt =
     (case v of
        JObj d \<Rightarrow> Inr (get_or d k dflt)
      | _ \<Rightarrow> Inl (AttributeError (has_no_attribute (type_name v) (lit ''get''))))"

text \<open>
  \<^verbatim>\<open>for job in jobs\<close>: a list gives its elements, a dict its keys, a string its characters;
  nothing else can be iterated.
\<close>

definition iterate :: "json \<Rightarrow> exn + json list" where
  "iterate v =
     (case v of
        JArr xs \<Rightarrow> Inr xs
      | JObj d \<Rightarrow> Inr (map (\<lambda>kv. JStr (fst kv)) d)
      | JStr s \<Rightarrow> Inr (map (\<lambda>c. JStr [c]) s)
      | _ \<Rightarrow> Inl (TypeError (not_iterable (type_name v))))"

text \<open>
  The request of \<^verbatim>\<open>fetch_jobs_from_jsearch\<close>: the header \<^verbatim>\<open>X-RapidAPI-Key\<close> is
  \<^verbatim>\<open>os.getenv("RAPIDAPI_KEY2")\<close>, which is \<^verbatim>\<open>None\<close> when the variable is not set; the other
  header and the parameters besides \<^verbatim>\<open>query\<close> and \<^verbatim>\<open>page\<close> are constants.
  The provider and the network are given by \<open>net\<close>: \<^verbatim>\<open>requests.get\<close> raises (no connection,
  timeout: never a \<^verbatim>\<open>requests.HTTPError\<close>) or returns a response with a status code, the
  message \<^verbatim>\<open>raise_for_status\<close> would build from its status line, and a body that
  \<^verbatim>\<open>response.json()\<close> decodes or refuses.
\<close>

record jsearch_request =
  api_key :: "str option"
  query :: str
  page :: int

datatype body =
    NotJSON str
  | Decoded json

datatype reply =
    NoResponse str
  | Response nat str body

text \<open>\<^verbatim>\<open>response.raise_for_status()\<close> raises for the status codes 400 to 599.\<close>

definition raise_for_status :: "nat \<Rightarrow> str \<Rightarrow> exn + unit" where
  "raise_for_status status msg =
     (if 400 \<le> status \<and> status < 600 then Inl (HTTPError msg) else Inr ())"

definition fetch_jobs_from_jsearch ::
  "(jsearch_request \<Rightarrow> reply) \<Rightarrow> str option \<Rightarrow> str \<Rightarrow> int \<Rightarrow>
     jsearch_request list \<times> (exn + json)" where
  "fetch_jobs_from_jsearch net getenv_key q p =
     (let request = \<lparr>api_key = getenv_key, query = q, page = p\<rparr> in
      ([request],
       case net request of
         NoResponse m \<Rightarrow> Inl (RequestException m)
       | Response status msg b \<Rightarrow>
           (case raise_for_status status msg of
              Inl e \<Rightarrow> Inl e
            | Inr u \<Rightarrow>
                (case b of
                   NotJSON m \<Rightarrow> Inl (RequestException m)
                 | Decoded v \<Rightarrow> json_get v (lit ''data'') (JArr [])))))"

text \<open>
  One element of the list comprehension of \<^verbatim>\<open>get_jobs\<close>. The values of the dict literal are
  evaluated in order: the first \<^verbatim>\<open>job.get\<close> raises when \<open>job\<close> is not a dict, then
  \<^verbatim>\<open>requirements\<close> and \<^verbatim>\<open>highlights\<close> raise when the value they read is not one.
\<close>

definition normalize :: "json \<Rightarrow> exn + json" where
  "normalize job =
     (case job of
        JObj d \<Rightarrow>
          (case json_get (get_or d (lit ''job_required_experience'') (JObj []))
                  (lit ''required_qualification'') (JStr (lit ''N/A'')) of
             Inl e \<Rightarrow> Inl e
           | Inr requirements \<Rightarrow>
               (case json_get (get_or d (lit ''job_highlights'') (JObj []))
                       (lit ''Qualifications'') (JArr []) of
                  Inl e \<Rightarrow> Inl e
                | Inr highlights \<Rightarrow>
                    Inr (JObj
                      [(lit ''title'', get_or d (lit ''job_title'') (JStr (lit ''N/A''))),
                       (lit ''company'', get_or d (lit ''employer_name'') (JStr (lit ''N/A''))),
                       (lit ''salary'', get_or d (lit ''job_min_salary'') (JStr (lit ''N/A''))),
                       (lit ''max_salary'', get_or d (lit ''job_max_salary'') (JStr (lit ''N/A''))),
                       (lit ''employment_type'',
                          get_or d (lit ''job_employment_type'') (JStr (lit ''N/A''))),
                       (lit ''location'', get_or d (lit ''job_city'') (JStr (lit ''N/A''))),
                       (lit ''country'', get_or d (lit ''job_country'') (JStr (lit ''N/A''))),
                       (lit ''description'',
                          get_or d (lit ''job_description'') (JStr (lit ''N/A''))),
                       (lit ''requirements'', requirements),
                       (lit ''highlights'', highlights),
                       (lit ''logo'', get_or d (lit ''employer_logo'') JNull),
                       (lit ''remote'', get_or d (lit ''job_is_remote'') (JBool False)),
                       (lit ''date_posted'',
                          get_or d (lit ''job_posted_at_datetime_utc'') (JStr (lit ''N/A''))),
                       (lit ''apply_link'',
                          get_or d (lit ''job_apply_link'') (JStr (lit ''N/A'')))])))
      | _ \<Rightarrow> Inl (AttributeError (has_no_attribute (type_name job) (lit ''get''))))"

fun normalize_all :: "json list \<Rightarrow> exn + json list" where
  "normalize_all [] = Inr []"
| "normalize_all (job # jobs) =
     (case normalize job of
        Inl e \<Rightarrow> Inl e
      | Inr r \<Rightarrow> (case normalize_all jobs of Inl e \<Rightarrow> Inl e | Inr rs \<Rightarrow> Inr (r # rs)))"

text \<open>The spec's names for the two errors \<^verbatim>\<open>/api/jobs\<close> answers with.\<close>

definition UpstreamError :: exn where
  "UpstreamError = HTTPException 502 (lit ''External API error'')"

definition InternalError :: exn where
  "InternalError = HTTPException 500 (lit ''Internal server error'')"

text \<open>\<^verbatim>\<open>except requests.HTTPError\<close> first, \<^verbatim>\<open>except Exception\<close> for the rest.\<close>

fun map_error :: "exn \<Rightarrow> exn" where
  "map_error (HTTPError m) = UpstreamError"
| "map_error e = InternalError"

definition get_jobs ::
  "(jsearch_request \<Rightarrow> reply) \<Rightarrow> str option \<Rightarrow> str \<Rightarrow> int \<Rightarrow>
     jsearch_request list \<times> (exn + json)" where
  "get_jobs net getenv_key q p =
     (case fetch_jobs_from_jsearch net getenv_key q p of
        (calls, Inl e) \<Rightarrow> (calls, Inl (map_error e))
      | (calls, Inr jobs) \<Rightarrow>
          (case iterate jobs of
             Inl e \<Rightarrow> (calls, Inl (map_error e))
           | Inr js \<Rightarrow>
               (case normalize_all js of
                  Inl e \<Rightarrow> (calls, Inl (map_error e))
                | Inr results \<Rightarrow> (calls, Inr (JObj [(lit ''data'', JArr results)])))))"

section \<open>The shape of a normalized listing\<close>

text \<open>
  The vocabulary in which the shape of the records of \<^verbatim>\<open>/api/jobs\<close> is stated: the keys of the
  dict literal of \<^verbatim>\<open>get_jobs\<close> in its order; for the fields read by one \<^verbatim>\<open>job.get\<close>, the key,
  the provider's field and the placeholder; and for the two fields read through a nested
  dict, what the value is when the outer field is absent or is a dict.
\<close>

definition listing_keys :: "str list" where
  "listing_keys =
     [lit ''title'', lit ''company'', lit ''salary'', lit ''max_salary'', lit ''employment_type'',
      lit ''location'', lit ''country'', lit ''description'', lit ''requirements'',
      lit ''highlights'', lit ''logo'', lit ''remote'', lit ''date_posted'', lit ''apply_link'']"

definition plain_fields :: "(str \<times> str \<times> json) list" where
  "plain_fields =
     [(lit ''title'', lit ''job_title'', JStr (lit ''N/A'')),
      (lit ''company'', lit ''employer_name'', JStr (lit ''N/A'')),
      (lit ''salary'', lit ''job_min_salary'', JStr (lit ''N/A'')),
      (lit ''max_salary'', lit ''job_max_salary'', JStr (lit ''N/A'')),
      (lit ''employment_type'', lit ''job_employment_type'', JStr (lit ''N/A'')),
      (lit ''location'', lit ''job_city'', JStr (lit ''N/A'')),
      (lit ''country'', lit ''job_country'', JStr (lit ''N/A'')),
      (lit ''description'', lit ''job_description'', JStr (lit ''N/A'')),
      (lit ''logo'', lit ''employer_logo'', JNull),
      (lit ''remote'', lit ''job_is_remote'', JBool False),
      (lit ''date_posted'', lit ''job_posted_at_datetime_utc'', JStr (lit ''N/A'')),
      (lit ''apply_link'', lit ''job_apply_link'', JStr (lit ''N/A''))]"

definition nested_field :: "(str \<times> json) list \<Rightarrow> str \<Rightarrow> str \<Rightarrow> json \<Rightarrow> json \<Rightarrow> bool" where
  "nested_field d outer inner dflt v \<longleftrightarrow>
     (case map_of d outer of
        None \<Rightarrow> v = dflt
      | Some (JObj e) \<Rightarrow> v = get_or e inner dflt
      | Some _ \<Rightarrow> False)"

definition listing_of :: "json \<Rightarrow> json \<Rightarrow> bool" where
  "listing_of job r \<longleftrightarrow>
     (\<exists>d kv. job = JObj d \<and> r = JObj kv \<and> map fst kv = listing_keys \<and>
        list_all (\<lambda>(k, src, dflt). map_of kv k = Some (get_or d src dflt)) plain_fields \<and>
        (\<exists>v. map_of kv (lit ''requirements'') = Some v \<and>
             nested_field d (lit ''job_required_experience'') (lit ''required_qualification'')
               (JStr (lit ''N/A'')) v) \<and>
        (\<exists>v. map_of kv (lit ''highlights'') = Some v \<and>
             nested_field d (lit ''job_highlights'') (lit ''Qualifications'') (JArr []) v))"

section \<open>Sample requests and states\<close>

text \<open>Concrete users, random bytes and states, used to run the handlers.\<close>

definition ann :: UserIn where
  "ann = \<lparr>username = lit ''ann'', password = lit ''pw'', email = None\<rparr>"

definition bob :: UserIn where
  "bob = \<lparr>username = lit ''bob'', password = lit ''pw'', email = None\<rparr>"

definition rnd0 :: "8 word list" where
  "rnd0 = [0x3a, 0x91, 0x0c, 0xff, 0x00, 0x27, 0xb4, 0x58, 0xe1, 0x6d, 0x9a, 0x13, 0x70, 0xc5, 0x4e, 0x82]"

definition carol :: UserIn where
  "carol = \<lparr>username = lit ''carol'', password = lit ''s3cret'', email = Some (lit ''c@x.org'')\<rparr>"




definition rnd1 :: "8 word list" where
  "rnd1 = [0x10, 0x32, 0x54, 0x76, 0x98, 0xba, 0xdc, 0xfe, 0x01, 0x23, 0x45, 0x67, 0x89, 0xab, 0xcd, 0xef]"

definition carol_registered :: app_state where
  "carol_registered =
     \<lparr>users = [(lit ''carol'', \<lparr>stored_password = lit ''s3cret'', stored_email = Some (lit ''c@x.org'')\<rparr>)],
      tokens = []\<rparr>"

definition carol_logged_in :: app_state where
  "carol_logged_in = carol_registered\<lparr>tokens := [(token_hex rnd0, Some (lit ''carol''))]\<rparr>"

definition cv_and_scan :: upload where
  "cv_and_scan = Contents (Document [Extracted (Some (lit ''Jane Doe, engineer'')), Extracted None])"

definition cv_and_bad_page :: upload where
  "cv_and_bad_page =
     Contents (Document [Extracted (Some (lit ''Jane Doe, engineer'')),
                         ExtractRaises (lit ''bad content stream'')])"

definition spaces_only :: upload where
  "spaces_only = Contents (Document [Extracted (Some (lit ''  '')), Extracted None])"

definition no_client :: "chat_request \<Rightarrow> chat_outcome" where
  "no_client request = ChatRaises (lit ''connection refused'')"

definition listing_without_logo :: json where
  "listing_without_logo =
     JObj [(lit ''job_title'', JStr (lit ''Backend developer'')),
           (lit ''employer_name'', JStr (lit ''Acme'')),
           (lit ''job_min_salary'', JInt 50000)]"

definition normalized_without_logo :: json where
  "normalized_without_logo =
     JObj [(lit ''title'', JStr (lit ''Backend developer'')),
           (lit ''company'', JStr (lit ''Acme'')),
           (lit ''salary'', JInt 50000),
           (lit ''max_salary'', JStr (lit ''N/A'')),
           (lit ''employment_type'', JStr (lit ''N/A'')),
           (lit ''location'', JStr (lit ''N/A'')),
           (lit ''country'', JStr (lit ''N/A'')),
           (lit ''description'', JStr (lit ''N/A'')),
           (lit ''requirements'', JStr (lit ''N/A'')),
           (lit ''highlights'', JArr []),
           (lit ''logo'', JNull),
           (lit ''remote'', JBool False),
           (lit ''date_posted'', JStr (lit ''N/A'')),
           (lit ''apply_link'', JStr (lit ''N/A''))]"

definition provider_ok :: "jsearch_request \<Rightarrow> reply" where
  "provider_ok request =
     Response 200 [] (Decoded (JObj [(lit ''status'', JStr (lit ''OK'')),
                                     (lit ''data'', JArr [listing_without_logo])]))"

definition provider_503 :: "jsearch_request \<Rightarrow> reply" where
  "provider_503 request =
     Response 503 (lit ''503 Server Error: Service Unavailable'') (NotJSON (lit ''Expecting value''))"

definition provider_down :: "jsearch_request \<Rightarrow> reply" where
  "provider_down request = NoResponse (lit ''Connection refused'')"

definition provider_html :: "jsearch_request \<Rightarrow> reply" where
  "provider_html request = Response 200 [] (NotJSON (lit ''Expecting value''))"

section \<open>Strings, headers and tokens\<close>

lemma split_sp_nonempty: "split_sp s \<noteq> []"
  by (induction s) (auto split: list.splits)

lemma split_sp_no_space: "32 \<notin> set s \<Longrightarrow> split_sp s = [s]"
  by (induction s) auto

lemma split_sp_bearer: "split_sp (lit ''Bearer '' @ s) = lit ''Bearer'' # split_sp s"
  by (simp add: lit_def split_sp_nonempty split: list.splits)

lemma startswith_append: "startswith s p \<longleftrightarrow> (\<exists>r. s = p @ r)"
  unfolding startswith_def
  by (metis append_eq_conv_conj append_take_drop_id)

text \<open>After the check of the prefix, \<^verbatim>\<open>authorization.split(" ")[1]\<close> never raises.\<close>

lemma bearer_has_token:
  "startswith a (lit ''Bearer '') \<Longrightarrow> \<exists>t. index (split_sp a) 1 = Some t"
  by (auto simp: startswith_append split_sp_bearer index_def split_sp_nonempty
      simp del: split_sp.simps)

lemma hexdigit_not_space: "hexdigit n \<noteq> 32"
  by (simp add: hexdigit_def)

lemma token_hex_no_space: "32 \<notin> set (token_hex bs)"
  by (induction bs) (auto simp: token_hex_def hexdigit_not_space)

text \<open>The header \<^verbatim>\<open>Bearer <token>\<close> of an issued token is read back as that token.\<close>

lemma bearer_token_hex:
  "index (split_sp (lit ''Bearer '' @ token_hex rnd)) 1 = Some (token_hex rnd)"
  by (simp add: split_sp_bearer split_sp_no_space token_hex_no_space index_def
      del: split_sp.simps)

lemma startswith_bearer: "startswith (lit ''Bearer '' @ t) (lit ''Bearer '')"
  by (simp add: startswith_append)

text \<open>The two handlers that read a token, on the header of an issued token.\<close>

lemma profile_bearer:
  "profile (lit ''Bearer '' @ token_hex rnd) st =
     (case dict_get (tokens st) (token_hex rnd) of
        None \<Rightarrow> (Inl InvalidToken, st)
      | Some name \<Rightarrow>
          if name = [] then (Inl InvalidToken, st)
          else (case map_of (users st) name of
                  None \<Rightarrow> (Inl (AttributeError (has_no_attribute (lit ''NoneType'') (lit ''get''))), st)
                | Some user \<Rightarrow> (Inr (Profile name (stored_email user)), st)))"
  unfolding profile_def by (simp only: startswith_bearer bearer_token_hex) simp

lemma logout_bearer:
  "logout (lit ''Bearer '' @ token_hex rnd) st =
     (if token_hex rnd \<notin> set (map fst (tokens st)) then (Inl InvalidToken, st)
      else (Inr (Msg (lit ''Logged out successfully'')),
            st\<lparr>tokens := AList.delete (token_hex rnd) (tokens st)\<rparr>))"
  unfolding logout_def by (simp only: startswith_bearer bearer_token_hex) simp

lemma tokens_differ: "token_hex rnd0 \<noteq> token_hex rnd1"
  by (simp add: token_hex_def rnd0_def rnd1_def hexdigit_def)

section \<open>Registration\<close>


lemma email_registered_iff:
  "email_registered st e \<longleftrightarrow> (\<exists>u \<in> snd ` set (users st). stored_email u = e)"
  by (simp add: email_registered_def list_ex_iff)





section \<open>Logout\<close>

lemma keys_delete: "fst ` set (AList.delete k al) = fst ` set al - {k}"
  by (induction al) auto

lemma handle_keeps_absent:
  "t \<notin> fst ` set (tokens st) \<Longrightarrow> issues r \<noteq> Some t \<Longrightarrow>
   t \<notin> fst ` set (tokens (snd (handle h r st)))"
  by (cases r)
     (auto simp: register_def login_def profile_def logout_def Let_def dom_update keys_delete
           split: option.splits if_splits)

lemma serve_keeps_absent:
  "t \<notin> fst ` set (tokens st) \<Longrightarrow> Some t \<notin> set (map issues rs) \<Longrightarrow>
   t \<notin> fst ` set (tokens (serve h rs st))"
  proof (induction rs arbitrary: st)
  case Nil
  then show ?case by simp
next
  case (Cons r rs)
  from Cons.prems have "issues r \<noteq> Some t" by auto
  with Cons.prems have "t \<notin> fst ` set (tokens (snd (handle h r st)))"
    by (simp add: handle_keeps_absent)
  moreover from Cons.prems have "Some t \<notin> set (map issues rs)" by simp
  ultimately show ?case using Cons.IH by simp
qed

lemma absent_dict_get: "t \<notin> fst ` set d \<Longrightarrow> dict_get d t = None"
  by (simp add: dict_get_def map_of_eq_None_iff [THEN iffD2])

lemma profile_absent:
  "startswith a (lit ''Bearer '') \<Longrightarrow> index (split_sp a) 1 = Some t \<Longrightarrow>
   t \<notin> fst ` set (tokens st) \<Longrightarrow> profile a st = (Inl InvalidToken, st)"
  by (simp add: profile_def absent_dict_get)

lemma logout_absent:
  "startswith a (lit ''Bearer '') \<Longrightarrow> index (split_sp a) 1 = Some t \<Longrightarrow>
   t \<notin> fst ` set (tokens st) \<Longrightarrow> logout a st = (Inl InvalidToken, st)"
  by (simp add: logout_def)

lemma logout_present:
  "startswith a (lit ''Bearer '') \<Longrightarrow> index (split_sp a) 1 = Some t \<Longrightarrow>
   t \<in> fst ` set (tokens st) \<Longrightarrow>
   logout a st = (Inr (Msg (lit ''Logged out successfully'')),
                  st\<lparr>tokens := AList.delete t (tokens st)\<rparr>)"
  by (simp add: logout_def)

lemma logged_out: "carol_logged_in\<lparr>tokens := AList.delete (token_hex rnd0) (tokens carol_logged_in)\<rparr>
    = carol_registered"
  by (simp add: carol_logged_in_def carol_registered_def)

text \<open>
  C8. For a header \<^verbatim>\<open>Bearer <t>\<close>: \<^verbatim>\<open>logout\<close> on a token \<open>t\<close> that is not in the session map
  fails with InvalidToken and changes nothing; on a token that is there it succeeds and removes
  it, and from then on, whatever requests are served in between, every \<^verbatim>\<open>profile\<close> and
  every \<^verbatim>\<open>logout\<close> with a header carrying \<open>t\<close> fails with InvalidToken, as long as no later
  login draws the very same token again.
\<close>

theorem logout_revokes:
  assumes "startswith a (lit ''Bearer '')" and "index (split_sp a) 1 = Some t"
  shows "(t \<notin> fst ` set (tokens st) \<longrightarrow> logout a st = (Inl InvalidToken, st)) \<and>
         (t \<in> fst ` set (tokens st) \<longrightarrow>
            logout a st = (Inr (Msg (lit ''Logged out successfully'')),
                           st\<lparr>tokens := AList.delete t (tokens st)\<rparr>) \<and>
            t \<notin> fst ` set (tokens (snd (logout a st))) \<and>
            (\<forall>rs a'. Some t \<notin> set (map issues rs) \<and>
                 startswith a' (lit ''Bearer '') \<and> index (split_sp a') 1 = Some t \<longrightarrow>
               fst (profile a' (serve h rs (snd (logout a st)))) = Inl InvalidToken \<and>
               fst (logout a' (serve h rs (snd (logout a st)))) = Inl InvalidToken))"
proof (intro conjI impI allI)
  show "logout a st = (Inl InvalidToken, st)" if "t \<notin> fst ` set (tokens st)"
    using assms that by (rule logout_absent)
next
  assume p: "t \<in> fst ` set (tokens st)"
  show l: "logout a st = (Inr (Msg (lit ''Logged out successfully'')),
                  st\<lparr>tokens := AList.delete t (tokens st)\<rparr>)"
    using assms p by (rule logout_present)
  show g: "t \<notin> fst ` set (tokens (snd (logout a st)))"
    by (simp add: l keys_delete)
  fix rs a'
  assume h: "Some t \<notin> set (map issues rs) \<and>
                 startswith a' (lit ''Bearer '') \<and> index (split_sp a') 1 = Some t"
  have gone: "t \<notin> fst ` set (tokens (serve h rs (snd (logout a st))))"
    using g h by (simp add: serve_keeps_absent)
  show "fst (profile a' (serve h rs (snd (logout a st)))) = Inl InvalidToken"
    using h gone by (simp add: profile_absent)
  show "fst (logout a' (serve h rs (snd (logout a st)))) = Inl InvalidToken"
    using h gone by (simp add: logout_absent)
qed

theorem logout_revokes_witness:
  "logout (lit ''Bearer '' @ token_hex rnd0) carol_logged_in =
     (Inr (Msg (lit ''Logged out successfully'')), carol_registered) \<and>
   fst (profile (lit ''Bearer '' @ token_hex rnd0)
          (serve id [Register ann, Login ann rnd1] carol_registered)) = Inl InvalidToken \<and>
   fst (logout (lit ''Bearer '' @ token_hex rnd0)
          (serve id [Register ann, Login ann rnd1] carol_registered)) = Inl InvalidToken \<and>
   logout (lit ''Bearer '' @ token_hex rnd0) init = (Inl InvalidToken, init)"
proof -
  let ?a = "lit ''Bearer '' @ token_hex rnd0"
  note T = logout_revokes [where a = ?a and t = "token_hex rnd0" and h = id,
      OF startswith_bearer bearer_token_hex]
  have p: "token_hex rnd0 \<in> fst ` set (tokens carol_logged_in)"
    by (simp add: carol_logged_in_def)
  have q: "token_hex rnd0 \<notin> fst ` set (tokens init)"
    by (simp add: init_def)
  note P = T [where st = carol_logged_in, THEN conjunct2, THEN mp, OF p]
  have 1: "logout ?a carol_logged_in =
     (Inr (Msg (lit ''Logged out successfully'')), carol_registered)"
    using P [THEN conjunct1] by (simp add: logged_out)
  have r: "Some (token_hex rnd0) \<notin> set (map issues [Register ann, Login ann rnd1]) \<and>
      startswith ?a (lit ''Bearer '') \<and> index (split_sp ?a) 1 = Some (token_hex rnd0)"
    using tokens_differ startswith_bearer [of "token_hex rnd0"] bearer_token_hex [of rnd0]
    by simp
  have 2: "fst (profile ?a (serve id [Register ann, Login ann rnd1] carol_registered))
        = Inl InvalidToken \<and>
      fst (logout ?a (serve id [Register ann, Login ann rnd1] carol_registered))
        = Inl InvalidToken"
    using P [THEN conjunct2, THEN conjunct2, THEN spec, THEN spec, THEN mp, OF r]
    by (simp only: 1 snd_conv)
  have 3: "logout ?a init = (Inl InvalidToken, init)"
    using T [where st = init, THEN conjunct1, THEN mp, OF q] .
  from 1 2 3 show ?thesis by simp
qed

section \<open>The session invariant\<close>

lemma set_update_subset: "set (AList.update k v al) \<subseteq> insert (k, v) (set al)"
  by (induction al) auto

lemma set_delete_subset: "set (AList.delete k al) \<subseteq> set al"
  by (induction al) auto

lemma session_inv_iff:
  "session_inv st \<longleftrightarrow>
     (\<forall>t v. (t, v) \<in> set (tokens st) \<longrightarrow>
        (\<exists>name. v = Some name \<and> name \<in> fst ` set (users st)))"
proof
  assume i: "session_inv st"
  show "\<forall>t v. (t, v) \<in> set (tokens st) \<longrightarrow>
        (\<exists>name. v = Some name \<and> name \<in> fst ` set (users st))"
  proof (intro allI impI)
    fix t v assume "(t, v) \<in> set (tokens st)"
    with i have "case v of None \<Rightarrow> False | Some name \<Rightarrow> name \<in> set (map fst (users st))"
      unfolding session_inv_def list_all_iff by fastforce
    then show "\<exists>name. v = Some name \<and> name \<in> fst ` set (users st)"
      by (cases v) simp_all
  qed
next
  assume a: "\<forall>t v. (t, v) \<in> set (tokens st) \<longrightarrow>
        (\<exists>name. v = Some name \<and> name \<in> fst ` set (users st))"
  show "session_inv st"
    unfolding session_inv_def list_all_iff
  proof
    fix x assume x: "x \<in> set (tokens st)"
    obtain t v where tv: "x = (t, v)" by (cases x)
    with x a obtain name where "v = Some name" "name \<in> fst ` set (users st)" by blast
    with tv show "case x of (t, u) \<Rightarrow>
        (case u of None \<Rightarrow> False | Some name \<Rightarrow> name \<in> set (map fst (users st)))"
      by simp
  qed
qed

lemma find_in_set: "find P xs = Some x \<Longrightarrow> x \<in> set xs"
  by (induction xs) (auto split: if_splits)

lemma lookup_record_in: "lookup_record us n = Some r \<Longrightarrow> r \<in> snd ` set us"
proof (cases "map_of us n")
  case None
  assume "lookup_record us n = Some r"
  with None have "find (\<lambda>u. stored_email u = Some n) (map snd us) = Some r"
    by (simp add: lookup_record_def)
  then have "r \<in> set (map snd us)" by (rule find_in_set)
  then show ?thesis by simp
next
  case (Some r')
  assume "lookup_record us n = Some r"
  with Some have "map_of us n = Some r" by (simp add: lookup_record_def)
  then have "(n, r) \<in> set us" by (rule map_of_SomeD)
  then show ?thesis by force
qed

lemma find_by_record:
  "r \<in> snd ` set us \<Longrightarrow> \<exists>k. find (\<lambda>(k, v). v = r) us = Some (k, r)"
  by (induction us) auto

lemma session_inv_init: "session_inv init"
  by (simp add: session_inv_def init_def)

lemma session_inv_register:
  assumes "session_inv st" shows "session_inv (snd (register h u st))"
proof -
  have us: "fst ` set (users st) \<subseteq> fst ` set (users (snd (register h u st)))"
    by (auto simp: register_def dom_update)
  have ts: "tokens (snd (register h u st)) = tokens st"
    by (simp add: register_def)
  show ?thesis
    unfolding session_inv_iff ts
  proof (intro allI impI)
    fix t v assume "(t, v) \<in> set (tokens st)"
    with assms obtain name where "v = Some name" "name \<in> fst ` set (users st)"
      unfolding session_inv_iff by blast
    with us show "\<exists>name. v = Some name \<and> name \<in> fst ` set (users (snd (register h u st)))"
      by (intro exI [of _ name] conjI) (simp, rule subsetD)
  qed
qed

lemma session_inv_login:
  assumes "session_inv st" shows "session_inv (snd (login h rnd u st))"
proof (cases "lookup_record (users st) (username u)")
  case None
  then show ?thesis using assms by (simp add: login_def)
next
  case (Some r)
  then have "r \<in> snd ` set (users st)" by (rule lookup_record_in)
  from find_by_record [OF this]
  obtain k where k: "find (\<lambda>(k, v). v = r) (users st) = Some (k, r)" ..
  then have "(k, r) \<in> set (users st)" by (rule find_in_set)
  then have kin: "k \<in> fst ` set (users st)" by force
  show ?thesis
  proof (cases "stored_password r = h (password u)")
    case False
    with Some show ?thesis using assms by (simp add: login_def)
  next
    case True
    with Some k have st': "snd (login h rnd u st) =
        st\<lparr>tokens := AList.update (token_hex rnd) (Some k) (tokens st)\<rparr>"
      by (simp add: login_def Let_def)
    show ?thesis
      unfolding session_inv_iff st'
    proof (intro allI impI)
      fix t v
      assume "(t, v) \<in> set (tokens (st\<lparr>tokens := AList.update (token_hex rnd) (Some k) (tokens st)\<rparr>))"
      then have "(t, v) = (token_hex rnd, Some k) \<or> (t, v) \<in> set (tokens st)"
        using set_update_subset [of "token_hex rnd" "Some k" "tokens st"] by auto
      then show "\<exists>name. v = Some name \<and>
          name \<in> fst ` set (users (st\<lparr>tokens := AList.update (token_hex rnd) (Some k) (tokens st)\<rparr>))"
        using kin assms unfolding session_inv_iff by auto
    qed
  qed
qed

lemma session_inv_logout:
  assumes "session_inv st" shows "session_inv (snd (logout a st))"
proof -
  have sub: "set (tokens (snd (logout a st))) \<subseteq> set (tokens st)"
    by (simp add: logout_def set_delete_subset split: option.splits)
  have us: "users (snd (logout a st)) = users st"
    by (simp add: logout_def split: option.splits)
  show ?thesis
    unfolding session_inv_iff us
  proof (intro allI impI)
    fix t v assume "(t, v) \<in> set (tokens (snd (logout a st)))"
    with sub have "(t, v) \<in> set (tokens st)" by (rule subsetD)
    with assms show "\<exists>name. v = Some name \<and> name \<in> fst ` set (users st)"
      unfolding session_inv_iff by blast
  qed
qed

lemma profile_state: "snd (profile a st) = st"
  by (simp add: profile_def split: option.splits)

lemma session_inv_handle: "session_inv st \<Longrightarrow> session_inv (snd (handle h r st))"
  by (cases r) (simp_all add: session_inv_register session_inv_login session_inv_logout
      profile_state)

lemma session_inv_serve: "session_inv st \<Longrightarrow> session_inv (serve h rs st)"
  by (induction rs arbitrary: st) (simp_all add: session_inv_handle)

lemma bound_user_exists:
  assumes "session_inv st" and "(t, v) \<in> set (tokens st)"
  shows "\<exists>name u. v = Some name \<and> map_of (users st) name = Some u"
proof -
  from assms obtain name where n: "v = Some name" "name \<in> fst ` set (users st)"
    unfolding session_inv_iff by blast
  then have "map_of (users st) name \<noteq> None"
    by (simp add: map_of_eq_None_iff)
  with n show ?thesis by auto
qed

lemma dict_get_SomeD: "dict_get d k = Some v \<Longrightarrow> (k, Some v) \<in> set d"
  by (auto simp: dict_get_def split: option.splits dest: map_of_SomeD)

lemma profile_safe:
  assumes "session_inv st"
  shows "fst (profile a st) \<noteq> Inl (AttributeError m)"
proof (cases "startswith a (lit ''Bearer '')")
  case False
  then show ?thesis by (simp add: profile_def InvalidAuthHeader_def)
next
  case True
  show ?thesis
  proof (cases "index (split_sp a) 1")
    case None
    with True show ?thesis by (simp add: profile_def)
  next
    case (Some t)
    show ?thesis
    proof (cases "dict_get (tokens st) t")
      case None
      with True Some show ?thesis by (simp add: profile_def InvalidToken_def)
    next
      case (Some name)
      then have "(t, Some name) \<in> set (tokens st)" by (rule dict_get_SomeD)
      with assms obtain u where "map_of (users st) name = Some u"
        using bound_user_exists by blast
      with True \<open>index (split_sp a) 1 = Some t\<close> Some show ?thesis
        by (simp add: profile_def InvalidToken_def)
    qed
  qed
qed

lemma profile_valid:
  assumes "session_inv st" and "startswith a (lit ''Bearer '')"
    and "index (split_sp a) 1 = Some t" and "dict_get (tokens st) t = Some name"
    and "name \<noteq> []"
  shows "\<exists>u. map_of (users st) name = Some u \<and>
             profile a st = (Inr (Profile name (stored_email u)), st)"
proof -
  from assms(4) have "(t, Some name) \<in> set (tokens st)" by (rule dict_get_SomeD)
  with assms(1) obtain u where "map_of (users st) name = Some u"
    using bound_user_exists by blast
  with assms show ?thesis by (simp add: profile_def)
qed

text \<open>
  C10. The invariant holds at start-up, every request (register, login, profile, logout)
  preserves it, so it holds after any sequence of requests. Where it holds, every token of the
  session map is bound to a username (never \<^verbatim>\<open>None\<close>) that has a record in the user store, the
  lookup \<^verbatim>\<open>users.get(username)\<close> of \<^verbatim>\<open>profile\<close> never returns \<^verbatim>\<open>None\<close> (no AttributeError), and
  \<^verbatim>\<open>profile\<close> with a token it accepts answers with that username and the email of its record.
\<close>

theorem session_invariant:
  "session_inv init \<and>
   (session_inv st \<longrightarrow> session_inv (snd (handle h r st))) \<and>
   session_inv (serve h rs init) \<and>
   (session_inv st \<longrightarrow>
      (\<forall>t v. (t, v) \<in> set (tokens st) \<longrightarrow>
         (\<exists>name u. v = Some name \<and> map_of (users st) name = Some u)) \<and>
      (\<forall>a m. fst (profile a st) \<noteq> Inl (AttributeError m)) \<and>
      (\<forall>a t name. startswith a (lit ''Bearer '') \<and> index (split_sp a) 1 = Some t \<and>
           dict_get (tokens st) t = Some name \<and> name \<noteq> [] \<longrightarrow>
         (\<exists>u. map_of (users st) name = Some u \<and>
              profile a st = (Inr (Profile name (stored_email u)), st))))"
proof (intro conjI impI allI)
  show "session_inv init" by (rule session_inv_init)
  show "session_inv (serve h rs init)" by (rule session_inv_serve [OF session_inv_init])
next
  assume "session_inv st"
  then show "session_inv (snd (handle h r st))" by (rule session_inv_handle)
next
  fix t v assume "session_inv st" "(t, v) \<in> set (tokens st)"
  then show "\<exists>name u. v = Some name \<and> map_of (users st) name = Some u"
    by (rule bound_user_exists)
next
  fix a m assume "session_inv st"
  then show "fst (profile a st) \<noteq> Inl (AttributeError m)" by (rule profile_safe)
next
  fix a t name
  assume "session_inv st" and "startswith a (lit ''Bearer '') \<and> index (split_sp a) 1 = Some t \<and>
           dict_get (tokens st) t = Some name \<and> name \<noteq> []"
  then show "\<exists>u. map_of (users st) name = Some u \<and>
              profile a st = (Inr (Profile name (stored_email u)), st)"
    using profile_valid by blast
qed

lemma serve_carol: "serve id [Register carol, Login carol rnd0] init = carol_logged_in"
  by (simp add: carol_def init_def register_def email_registered_def login_def
      lookup_record_def Let_def carol_logged_in_def carol_registered_def lit_def)

theorem session_invariant_witness:
  "session_inv carol_logged_in \<and>
   session_inv (snd (handle id (Logout (lit ''Bearer '' @ token_hex rnd0)) carol_logged_in)) \<and>
   profile (lit ''Bearer '' @ token_hex rnd0) carol_logged_in =
     (Inr (Profile (lit ''carol'') (Some (lit ''c@x.org''))), carol_logged_in)"
proof -
  let ?a = "lit ''Bearer '' @ token_hex rnd0"
  have i: "session_inv carol_logged_in"
    using session_invariant [where h = id and rs = "[Register carol, Login carol rnd0]",
        THEN conjunct2, THEN conjunct2, THEN conjunct1]
    by (simp only: serve_carol)
  note S = session_invariant [where st = carol_logged_in and h = id and r = "Logout ?a"]
  have 1: "session_inv (snd (handle id (Logout ?a) carol_logged_in))"
    using S [THEN conjunct2, THEN conjunct1, THEN mp, OF i] .
  have g: "startswith ?a (lit ''Bearer '') \<and> index (split_sp ?a) 1 = Some (token_hex rnd0) \<and>
      dict_get (tokens carol_logged_in) (token_hex rnd0) = Some (lit ''carol'') \<and>
      lit ''carol'' \<noteq> []"
    using startswith_bearer [of "token_hex rnd0"] bearer_token_hex [of rnd0]
    by (simp add: carol_logged_in_def dict_get_def lit_def)
  have "\<exists>u. map_of (users carol_logged_in) (lit ''carol'') = Some u \<and>
      profile ?a carol_logged_in = (Inr (Profile (lit ''carol'') (stored_email u)), carol_logged_in)"
    using S [THEN conjunct2, THEN conjunct2, THEN conjunct2, THEN mp, OF i, THEN conjunct2,
        THEN conjunct2, THEN spec, THEN spec, THEN spec, THEN mp, OF g] .
  then have 2: "profile ?a carol_logged_in =
     (Inr (Profile (lit ''carol'') (Some (lit ''c@x.org''))), carol_logged_in)"
    by (auto simp: carol_logged_in_def carol_registered_def)
  from i 1 2 show ?thesis by simp
qed

section \<open>Login binds by value\<close>

lemma serve_twins: "serve h [Register ann, Register bob, Login bob rnd0] init =
   \<lparr>users = [(lit ''ann'', \<lparr>stored_password = h (lit ''pw''), stored_email = None\<rparr>),
              (lit ''bob'', \<lparr>stored_password = h (lit ''pw''), stored_email = None\<rparr>)],
    tokens = [(token_hex rnd0, Some (lit ''ann''))]\<rparr>"
  by (simp add: ann_def bob_def init_def register_def email_registered_def login_def
      lookup_record_def Let_def lit_def)

text \<open>
  C1. \<^verbatim>\<open>login\<close> binds the new token to the first username whose stored record equals the
  matched one (\<^verbatim>\<open>next(k for k, v in users.items() if v == record)\<close>), not to the username that
  matched. With two users that registered the same password and no email, a login as the
  second one yields a token whose profile is the first one's, whatever the digest function.
\<close>

theorem login_binds_first_equal_record:
  "fst (profile (lit ''Bearer '' @ token_hex rnd0)
         (serve h [Register ann, Register bob, Login bob rnd0] init))
   = Inr (Profile (lit ''ann'') None)"
  unfolding serve_twins profile_bearer
  by (simp add: dict_get_def lit_def)

section \<open>Document text extraction: what fails and what is absorbed\<close>

lemma dropWhile_all: "(\<forall>x \<in> set (dropWhile P xs). P x) \<longleftrightarrow> (\<forall>x \<in> set xs. P x)"
  by (induction xs) auto

lemma strip_empty_iff: "strip s = [] \<longleftrightarrow> (\<forall>c \<in> set s. isspace c)"
proof -
  have "strip s = [] \<longleftrightarrow> dropWhile isspace (rev (dropWhile isspace s)) = []"
    by (simp add: strip_def)
  also have "\<dots> \<longleftrightarrow> (\<forall>c \<in> set (dropWhile isspace s). isspace c)"
    by (simp add: dropWhile_eq_Nil_conv)
  also have "\<dots> \<longleftrightarrow> (\<forall>c \<in> set s. isspace c)"
    by (rule dropWhile_all)
  finally show ?thesis .
qed

lemma join_pages_Extracted: "join_pages (map Extracted ts) = Inr (concat (map or_empty ts))"
  by (induction ts) simp_all






lemma extract_pages:
  "extract_pdf_text (Contents (Document (map Extracted ts))) =
     Inr (if \<forall>c \<in> set (concat (map or_empty ts)). isspace c
          then \<lparr>extracted_text = [], warning = Some (lit ''No extractable text found.'')\<rparr>
          else \<lparr>extracted_text = concat (map or_empty ts), warning = None\<rparr>)"
  by (simp add: extract_pdf_text_def read_text_def join_pages_Extracted strip_empty_iff
      del: set_concat)





text \<open>
  C5 (as amended). For a document that opens and whose pages all return from extraction,
  \<^verbatim>\<open>/extract_pdf_text\<close> takes the concatenation of the page texts in page order with no
  separator, a page without text counting as the empty string. When the concatenation has a
  character that is not whitespace it is returned as it is, with no warning; when it is empty
  or whitespace only the text returned is the empty string, with the warning. In particular
  a page with text followed by a page without returns the first page's text and no warning.
\<close>

theorem extract_concatenates:
  "extract_pdf_text (Contents (Document (map Extracted ts))) =
     Inr (if \<forall>c \<in> set (concat (map or_empty ts)). isspace c
          then \<lparr>extracted_text = [], warning = Some (lit ''No extractable text found.'')\<rparr>
          else \<lparr>extracted_text = concat (map or_empty ts), warning = None\<rparr>) \<and>
   ((\<exists>c \<in> set t. \<not> isspace c) \<and> (b = None \<or> b = Some []) \<longrightarrow>
      extract_pdf_text (Contents (Document [Extracted (Some t), Extracted b])) =
        Inr \<lparr>extracted_text = t, warning = None\<rparr>)"
proof (intro conjI impI)
  show "extract_pdf_text (Contents (Document (map Extracted ts))) =
     Inr (if \<forall>c \<in> set (concat (map or_empty ts)). isspace c
          then \<lparr>extracted_text = [], warning = Some (lit ''No extractable text found.'')\<rparr>
          else \<lparr>extracted_text = concat (map or_empty ts), warning = None\<rparr>)"
    by (rule extract_pages)
next
  assume a: "(\<exists>c \<in> set t. \<not> isspace c) \<and> (b = None \<or> b = Some [])"
  then have "or_empty b = []" by auto
  with a show "extract_pdf_text (Contents (Document [Extracted (Some t), Extracted b])) =
        Inr \<lparr>extracted_text = t, warning = None\<rparr>"
    using extract_pages [of "[Some t, b]"] by auto
qed

theorem extract_concatenates_witness:
  "extract_pdf_text cv_and_scan =
     Inr \<lparr>extracted_text = lit ''Jane Doe, engineer'', warning = None\<rparr> \<and>
   extract_pdf_text spaces_only =
     Inr \<lparr>extracted_text = [], warning = Some (lit ''No extractable text found.'')\<rparr>"
proof -
  have h: "(\<exists>c \<in> set (lit ''Jane Doe, engineer''). \<not> isspace c) \<and>
      (None = None \<or> None = Some ([] :: str))"
    by (simp add: lit_def isspace_def)
  have 1: "extract_pdf_text cv_and_scan =
     Inr \<lparr>extracted_text = lit ''Jane Doe, engineer'', warning = None\<rparr>"
    using extract_concatenates [where t = "lit ''Jane Doe, engineer''" and b = None
        and ts = "[]", THEN conjunct2, THEN mp, OF h]
    by (simp only: cv_and_scan_def)
  have 2: "extract_pdf_text spaces_only =
     Inr \<lparr>extracted_text = [], warning = Some (lit ''No extractable text found.'')\<rparr>"
    using extract_concatenates [where ts = "[Some (lit ''  ''), None]"
        and t = "[]" and b = None, THEN conjunct1]
    by (simp add: spaces_only_def isspace_def lit_def)
  from 1 2 show ?thesis by (rule conjI)
qed

text \<open>
  The claim as first stated fails for a text of spaces: the concatenation is two spaces, the
  text returned is empty. It also fails for an opened document one of whose pages raises.
\<close>

theorem extract_whitespace_counterexample:
  "join_pages [Extracted (Some (lit ''  '')), Extracted None] = Inr (lit ''  '') \<and>
   extract_pdf_text spaces_only =
     Inr \<lparr>extracted_text = [], warning = Some (lit ''No extractable text found.'')\<rparr> \<and>
   lit ''  '' \<noteq> [] \<and>
   extract_pdf_text cv_and_bad_page =
     Inl (MalformedDocument (LibraryError (lit ''bad content stream'')))"
  by (simp add: spaces_only_def cv_and_bad_page_def extract_pdf_text_def read_text_def
      strip_def isspace_def lit_def)

section \<open>Resume analysis without text\<close>

text \<open>
  C6. When the text extracted from the upload is empty or whitespace only, \<^verbatim>\<open>/analyze-pdf\<close>
  answers with the fixed response \<^verbatim>\<open>No extractable text found in the PDF.\<close> and sends no
  request to the chat-completion endpoint, whatever that endpoint would have done.
\<close>

theorem analyze_blank_short_circuits:
  "read_text f = Inr full_text \<Longrightarrow> \<forall>c \<in> set full_text. isspace c \<Longrightarrow>
   analyze_pdf client f = ([], Inr no_text_response)"
  by (simp add: analyze_pdf_def strip_empty_iff)

theorem analyze_blank_short_circuits_witness:
  "analyze_pdf no_client spaces_only = ([], Inr no_text_response)"
proof -
  have r: "read_text spaces_only = Inr (lit ''  '')"
    by (simp add: spaces_only_def read_text_def)
  have b: "\<forall>c \<in> set (lit ''  ''). isspace c"
    by (simp add: lit_def isspace_def)
  from r b show ?thesis by (rule analyze_blank_short_circuits)
qed

section \<open>Normalized job search: the records\<close>

lemma json_get_Inr:
  "json_get v k dflt = Inr x \<Longrightarrow> \<exists>e. v = JObj e \<and> x = get_or e k dflt"
  by (cases v) (simp_all add: json_get_def)

lemma nested_get:
  "json_get (get_or d outer (JObj [])) inner dflt = Inr v \<Longrightarrow> nested_field d outer inner dflt v"
proof -
  assume a: "json_get (get_or d outer (JObj [])) inner dflt = Inr v"
  then obtain e where e: "get_or d outer (JObj []) = JObj e" "v = get_or e inner dflt"
    using json_get_Inr by blast
  show ?thesis
  proof (cases "map_of d outer")
    case None
    with e show ?thesis by (simp add: nested_field_def get_or_def)
  next
    case (Some w)
    with e show ?thesis by (simp add: nested_field_def get_or_def)
  qed
qed

lemma normalize_Inr:
  assumes "normalize job = Inr r"
  shows "listing_of job r"
proof -
  from assms obtain d where d: "job = JObj d"
    by (cases job) (simp_all add: normalize_def)
  from assms d obtain rq where rq:
    "json_get (get_or d (lit ''job_required_experience'') (JObj []))
        (lit ''required_qualification'') (JStr (lit ''N/A'')) = Inr rq"
    by (auto simp: normalize_def split: sum.splits)
  from assms d rq obtain hl where hl:
    "json_get (get_or d (lit ''job_highlights'') (JObj []))
        (lit ''Qualifications'') (JArr []) = Inr hl"
    by (auto simp: normalize_def split: sum.splits)
  define kv where "kv =
      [(lit ''title'', get_or d (lit ''job_title'') (JStr (lit ''N/A''))),
       (lit ''company'', get_or d (lit ''employer_name'') (JStr (lit ''N/A''))),
       (lit ''salary'', get_or d (lit ''job_min_salary'') (JStr (lit ''N/A''))),
       (lit ''max_salary'', get_or d (lit ''job_max_salary'') (JStr (lit ''N/A''))),
       (lit ''employment_type'', get_or d (lit ''job_employment_type'') (JStr (lit ''N/A''))),
       (lit ''location'', get_or d (lit ''job_city'') (JStr (lit ''N/A''))),
       (lit ''country'', get_or d (lit ''job_country'') (JStr (lit ''N/A''))),
       (lit ''description'', get_or d (lit ''job_description'') (JStr (lit ''N/A''))),
       (lit ''requirements'', rq),
       (lit ''highlights'', hl),
       (lit ''logo'', get_or d (lit ''employer_logo'') JNull),
       (lit ''remote'', get_or d (lit ''job_is_remote'') (JBool False)),
       (lit ''date_posted'', get_or d (lit ''job_posted_at_datetime_utc'') (JStr (lit ''N/A''))),
       (lit ''apply_link'', get_or d (lit ''job_apply_link'') (JStr (lit ''N/A'')))]"
  from assms d rq hl have r: "r = JObj kv"
    by (simp add: normalize_def kv_def)
  have k: "map fst kv = listing_keys"
    by (simp add: kv_def listing_keys_def)
  have p: "list_all (\<lambda>(k, src, dflt). map_of kv k = Some (get_or d src dflt)) plain_fields"
    by (simp add: kv_def plain_fields_def lit_def)
  have q1: "map_of kv (lit ''requirements'') = Some rq"
    by (simp add: kv_def lit_def)
  have q2: "map_of kv (lit ''highlights'') = Some hl"
    by (simp add: kv_def lit_def)
  have n1: "nested_field d (lit ''job_required_experience'') (lit ''required_qualification'')
               (JStr (lit ''N/A'')) rq"
    using rq by (rule nested_get)
  have n2: "nested_field d (lit ''job_highlights'') (lit ''Qualifications'') (JArr []) hl"
    using hl by (rule nested_get)
  from d r k p q1 q2 n1 n2 show ?thesis
    unfolding listing_of_def by blast
qed

lemma normalize_all_Inr:
  "normalize_all js = Inr rs \<Longrightarrow> list_all2 (\<lambda>job r. normalize job = Inr r) js rs"
proof (induction js arbitrary: rs)
  case Nil
  then show ?case by simp
next
  case (Cons j js)
  from Cons.prems obtain r rs' where r: "normalize j = Inr r" "normalize_all js = Inr rs'"
      "rs = r # rs'"
    by (auto split: sum.splits)
  with Cons.IH show ?case by simp
qed

lemma get_jobs_Inr:
  assumes "snd (get_jobs net key q p) = Inr out"
  shows "\<exists>data jobs rs. snd (fetch_jobs_from_jsearch net key q p) = Inr data \<and>
           iterate data = Inr jobs \<and> normalize_all jobs = Inr rs \<and>
           out = JObj [(lit ''data'', JArr rs)]"
proof -
  obtain calls res where f: "fetch_jobs_from_jsearch net key q p = (calls, res)"
    by (cases "fetch_jobs_from_jsearch net key q p")
  from assms f obtain data where d: "res = Inr data"
    by (cases res) (simp_all add: get_jobs_def)
  from assms f d obtain jobs where j: "iterate data = Inr jobs"
    by (cases "iterate data") (simp_all add: get_jobs_def)
  from assms f d j obtain rs where r: "normalize_all jobs = Inr rs"
    by (cases "normalize_all jobs") (simp_all add: get_jobs_def)
  from assms f d j r have "out = JObj [(lit ''data'', JArr rs)]"
    by (simp add: get_jobs_def)
  with f d j r show ?thesis by simp
qed

lemma get_jobs_ok:
  "get_jobs provider_ok key q p =
     ([\<lparr>api_key = key, query = q, page = p\<rparr>],
      Inr (JObj [(lit ''data'', JArr [normalized_without_logo])]))"
  by (simp add: get_jobs_def fetch_jobs_from_jsearch_def provider_ok_def raise_for_status_def
      json_get_def get_or_def iterate_def normalize_def listing_without_logo_def
      normalized_without_logo_def lit_def)

text \<open>
  C2 (as amended). When \<^verbatim>\<open>/api/jobs\<close> succeeds its answer is \<^verbatim>\<open>{"data": [...]}\<close> with one record
  for each element of the provider's \<^verbatim>\<open>data\<close>, in order. Each element is a dict and its record
  has exactly the keys title, company, salary, max_salary, employment_type, location, country,
  description, requirements, highlights, logo, remote, date_posted, apply_link; every field
  holds the provider's value or, where the provider's record lacks it, the placeholder
  (\<^verbatim>\<open>"N/A"\<close>, \<^verbatim>\<open>False\<close> for remote, \<^verbatim>\<open>None\<close> for logo, the empty list for highlights); no key is
  ever left out.
\<close>

theorem get_jobs_listings:
  assumes "snd (get_jobs net key q p) = Inr out"
  shows "\<exists>data jobs rs.
           snd (fetch_jobs_from_jsearch net key q p) = Inr data \<and> iterate data = Inr jobs \<and>
           out = JObj [(lit ''data'', JArr rs)] \<and> list_all2 listing_of jobs rs"
proof -
  from get_jobs_Inr [OF assms] obtain data jobs rs where
    g: "snd (fetch_jobs_from_jsearch net key q p) = Inr data" "iterate data = Inr jobs"
       "normalize_all jobs = Inr rs" "out = JObj [(lit ''data'', JArr rs)]"
    by blast
  from g(3) have "list_all2 (\<lambda>job r. normalize job = Inr r) jobs rs"
    by (rule normalize_all_Inr)
  then have "list_all2 listing_of jobs rs"
    by (rule list_all2_mono) (rule normalize_Inr)
  with g show ?thesis by blast
qed

theorem get_jobs_listings_witness:
  "\<exists>data jobs rs.
     snd (fetch_jobs_from_jsearch provider_ok None (lit ''python'') 1) = Inr data \<and>
     iterate data = Inr jobs \<and>
     JObj [(lit ''data'', JArr [normalized_without_logo])] = JObj [(lit ''data'', JArr rs)] \<and>
     list_all2 listing_of jobs rs"
proof -
  have "snd (get_jobs provider_ok None (lit ''python'') 1) =
      Inr (JObj [(lit ''data'', JArr [normalized_without_logo])])"
    by (simp add: get_jobs_ok)
  then show ?thesis by (rule get_jobs_listings)
qed

text \<open>
  The claim as first stated names the keys \<^verbatim>\<open>salary_min\<close> and \<^verbatim>\<open>salary_max\<close>; the records
  carry \<^verbatim>\<open>salary\<close> and \<^verbatim>\<open>max_salary\<close>.
\<close>

theorem get_jobs_keys_counterexample:
  "snd (get_jobs provider_ok None (lit ''python'') 1) =
     Inr (JObj [(lit ''data'', JArr
       [JObj [(lit ''title'', JStr (lit ''Backend developer'')),
              (lit ''company'', JStr (lit ''Acme'')),
              (lit ''salary'', JInt 50000),
              (lit ''max_salary'', JStr (lit ''N/A'')),
              (lit ''employment_type'', JStr (lit ''N/A'')),
              (lit ''location'', JStr (lit ''N/A'')),
              (lit ''country'', JStr (lit ''N/A'')),
              (lit ''description'', JStr (lit ''N/A'')),
              (lit ''requirements'', JStr (lit ''N/A'')),
              (lit ''highlights'', JArr []),
              (lit ''logo'', JNull),
              (lit ''remote'', JBool False),
              (lit ''date_posted'', JStr (lit ''N/A'')),
              (lit ''apply_link'', JStr (lit ''N/A''))]])]) \<and>
   lit ''salary_min'' \<notin> set listing_keys \<and> lit ''salary_max'' \<notin> set listing_keys"
  by (simp add: get_jobs_ok normalized_without_logo_def listing_keys_def) (simp add: lit_def)

section \<open>Normalized job search: the errors\<close>

lemma map_error_cases: "map_error e = UpstreamError \<or> map_error e = InternalError"
  by (cases e) simp_all

lemma map_error_Upstream: "map_error e = UpstreamError \<Longrightarrow> \<exists>m. e = HTTPError m"
  by (cases e) (simp_all add: UpstreamError_def InternalError_def)

lemma json_get_no_HTTPError: "json_get v k dflt \<noteq> Inl (HTTPError m)"
  by (cases v) (simp_all add: json_get_def)

lemma iterate_no_HTTPError: "iterate v \<noteq> Inl (HTTPError m)"
  by (cases v) (simp_all add: iterate_def)

lemma normalize_no_HTTPError: "normalize job \<noteq> Inl (HTTPError m)"
proof (cases job)
  case (JObj d)
  then show ?thesis
    using json_get_no_HTTPError
    by (auto simp: normalize_def split: sum.splits)
qed (simp_all add: normalize_def)

lemma normalize_all_no_HTTPError: "normalize_all js \<noteq> Inl (HTTPError m)"
proof (induction js)
  case Nil
  then show ?case by simp
next
  case (Cons j js)
  then show ?case
    using normalize_no_HTTPError [of j m] by (auto split: sum.splits)
qed

lemma fetch_HTTPError:
  "snd (fetch_jobs_from_jsearch net key q p) = Inl (HTTPError m) \<Longrightarrow>
   \<exists>status b. net \<lparr>api_key = key, query = q, page = p\<rparr> = Response status m b \<and>
      400 \<le> status \<and> status < 600"
  using json_get_no_HTTPError
  by (auto simp: fetch_jobs_from_jsearch_def raise_for_status_def Let_def
      split: reply.splits body.splits if_splits)

lemma get_jobs_Inl:
  assumes "snd (get_jobs net key q p) = Inl x"
  shows "\<exists>e. x = map_error e \<and>
     (snd (fetch_jobs_from_jsearch net key q p) = Inl e \<or>
      (\<exists>data. iterate data = Inl e) \<or> (\<exists>jobs. normalize_all jobs = Inl e))"
proof -
  obtain calls res where f: "fetch_jobs_from_jsearch net key q p = (calls, res)"
    by (cases "fetch_jobs_from_jsearch net key q p")
  show ?thesis
  proof (cases res)
    case (Inl e)
    with assms f show ?thesis by (auto simp: get_jobs_def)
  next
    case (Inr data)
    show ?thesis
    proof (cases "iterate data")
      case (Inl e)
      with assms f Inr show ?thesis by (auto simp: get_jobs_def)
    next
      case i: (Inr jobs)
      show ?thesis
      proof (cases "normalize_all jobs")
        case (Inl e)
        with assms f Inr i show ?thesis by (auto simp: get_jobs_def)
      next
        case r: (Inr rs)
        with assms f Inr i show ?thesis by (simp add: get_jobs_def)
      qed
    qed
  qed
qed

lemma get_jobs_4xx_5xx:
  "net \<lparr>api_key = key, query = q, page = p\<rparr> = Response status msg b \<Longrightarrow>
   400 \<le> status \<Longrightarrow> status < 600 \<Longrightarrow> snd (get_jobs net key q p) = Inl UpstreamError"
  by (simp add: get_jobs_def fetch_jobs_from_jsearch_def raise_for_status_def)

lemma get_jobs_no_response:
  "net \<lparr>api_key = key, query = q, page = p\<rparr> = NoResponse m \<Longrightarrow>
   snd (get_jobs net key q p) = Inl InternalError"
  by (simp add: get_jobs_def fetch_jobs_from_jsearch_def)

lemma get_jobs_not_json:
  "net \<lparr>api_key = key, query = q, page = p\<rparr> = Response status msg (NotJSON m) \<Longrightarrow>
   \<not> (400 \<le> status \<and> status < 600) \<Longrightarrow> snd (get_jobs net key q p) = Inl InternalError"
  by (auto simp: get_jobs_def fetch_jobs_from_jsearch_def raise_for_status_def)

text \<open>
  Whatever the credential, \<^verbatim>\<open>/api/jobs\<close> calls \<^verbatim>\<open>requests.get\<close> once:
  \<^verbatim>\<open>fetch_jobs_from_jsearch\<close> puts \<^verbatim>\<open>os.getenv("RAPIDAPI_KEY2")\<close> into the header without
  looking at it.
\<close>

lemma get_jobs_calls:
  "fst (get_jobs net key q p) = [\<lparr>api_key = key, query = q, page = p\<rparr>]"
  by (simp add: get_jobs_def fetch_jobs_from_jsearch_def Let_def split: sum.splits)

text \<open>
  C3 (as amended). For \<^verbatim>\<open>/api/jobs\<close>: a response of the provider with a status from 400 to 599
  surfaces as UpstreamError (status 502); every other failure, be it that no response arrives
  (connection failure, timeout), that the body is not JSON or that the decoded body has not
  the expected shape, surfaces as InternalError (status 500); no other error is returned, and
  UpstreamError is returned for a 4xx or 5xx response only.
\<close>

theorem get_jobs_error_mapping:
  "(net \<lparr>api_key = key, query = q, page = p\<rparr> = Response status msg b \<and>
      400 \<le> status \<and> status < 600 \<longrightarrow> snd (get_jobs net key q p) = Inl UpstreamError) \<and>
   (net \<lparr>api_key = key, query = q, page = p\<rparr> = NoResponse m \<longrightarrow>
      snd (get_jobs net key q p) = Inl InternalError) \<and>
   (net \<lparr>api_key = key, query = q, page = p\<rparr> = Response status msg (NotJSON m) \<and>
      \<not> (400 \<le> status \<and> status < 600) \<longrightarrow> snd (get_jobs net key q p) = Inl InternalError) \<and>
   (snd (get_jobs net key q p) = Inl x \<longrightarrow>
      (x = UpstreamError \<and>
         (\<exists>status msg b. net \<lparr>api_key = key, query = q, page = p\<rparr> = Response status msg b \<and>
            400 \<le> status \<and> status < 600)) \<or>
      x = InternalError) \<and>
   UpstreamError = HTTPException 502 (lit ''External API error'') \<and>
   InternalError = HTTPException 500 (lit ''Internal server error'')"
proof (intro conjI impI)
  assume "net \<lparr>api_key = key, query = q, page = p\<rparr> = Response status msg b \<and>
      400 \<le> status \<and> status < 600"
  then show "snd (get_jobs net key q p) = Inl UpstreamError"
    using get_jobs_4xx_5xx by blast
next
  assume "net \<lparr>api_key = key, query = q, page = p\<rparr> = NoResponse m"
  then show "snd (get_jobs net key q p) = Inl InternalError" by (rule get_jobs_no_response)
next
  assume "net \<lparr>api_key = key, query = q, page = p\<rparr> = Response status msg (NotJSON m) \<and>
      \<not> (400 \<le> status \<and> status < 600)"
  then show "snd (get_jobs net key q p) = Inl InternalError"
    using get_jobs_not_json by blast
next
  assume "snd (get_jobs net key q p) = Inl x"
  from get_jobs_Inl [OF this] obtain e where e: "x = map_error e"
     "snd (fetch_jobs_from_jsearch net key q p) = Inl e \<or>
      (\<exists>data. iterate data = Inl e) \<or> (\<exists>jobs. normalize_all jobs = Inl e)"
    by blast
  show "(x = UpstreamError \<and>
         (\<exists>status msg b. net \<lparr>api_key = key, query = q, page = p\<rparr> = Response status msg b \<and>
            400 \<le> status \<and> status < 600)) \<or>
      x = InternalError"
  proof (cases "x = InternalError")
    case True
    then show ?thesis by simp
  next
    case False
    with e(1) have u: "x = UpstreamError" using map_error_cases [of e] by simp
    with e(1) obtain m' where m': "e = HTTPError m'" using map_error_Upstream by metis
    with e(2) have "snd (fetch_jobs_from_jsearch net key q p) = Inl (HTTPError m')"
      using iterate_no_HTTPError normalize_all_no_HTTPError by blast
    from fetch_HTTPError [OF this] u show ?thesis by blast
  qed
next
  show "UpstreamError = HTTPException 502 (lit ''External API error'')"
    by (simp add: UpstreamError_def)
  show "InternalError = HTTPException 500 (lit ''Internal server error'')"
    by (simp add: InternalError_def)
qed

theorem get_jobs_error_mapping_witness:
  "snd (get_jobs provider_503 None (lit ''python'') 1) = Inl UpstreamError \<and>
   snd (get_jobs provider_down None (lit ''python'') 1) = Inl InternalError \<and>
   snd (get_jobs provider_html None (lit ''python'') 1) = Inl InternalError \<and>
   ((UpstreamError = UpstreamError \<and>
       (\<exists>status msg b.
          provider_503 \<lparr>api_key = None, query = lit ''python'', page = 1\<rparr> = Response status msg b \<and>
          400 \<le> status \<and> status < 600)) \<or>
     UpstreamError = InternalError)"
proof -
  have a: "provider_503 \<lparr>api_key = None, query = lit ''python'', page = 1\<rparr> =
      Response 503 (lit ''503 Server Error: Service Unavailable'') (NotJSON (lit ''Expecting value'')) \<and>
      400 \<le> (503 :: nat) \<and> (503 :: nat) < 600"
    by (simp add: provider_503_def)
  have b: "provider_down \<lparr>api_key = None, query = lit ''python'', page = 1\<rparr> =
      NoResponse (lit ''Connection refused'')"
    by (simp add: provider_down_def)
  have c: "provider_html \<lparr>api_key = None, query = lit ''python'', page = 1\<rparr> =
      Response 200 [] (NotJSON (lit ''Expecting value'')) \<and> \<not> (400 \<le> (200 :: nat) \<and> (200 :: nat) < 600)"
    by (simp add: provider_html_def)
  have 1: "snd (get_jobs provider_503 None (lit ''python'') 1) = Inl UpstreamError"
    using get_jobs_error_mapping [where net = provider_503 and key = None
        and q = "lit ''python''" and p = 1 and status = 503
        and msg = "lit ''503 Server Error: Service Unavailable''"
        and b = "NotJSON (lit ''Expecting value'')", THEN conjunct1, THEN mp, OF a] .
  have 2: "snd (get_jobs provider_down None (lit ''python'') 1) = Inl InternalError"
    using get_jobs_error_mapping [where net = provider_down and key = None
        and q = "lit ''python''" and p = 1 and m = "lit ''Connection refused''",
        THEN conjunct2, THEN conjunct1, THEN mp, OF b] .
  have 3: "snd (get_jobs provider_html None (lit ''python'') 1) = Inl InternalError"
    using get_jobs_error_mapping [where net = provider_html and key = None
        and q = "lit ''python''" and p = 1 and status = 200 and msg = "[]"
        and m = "lit ''Expecting value''",
        THEN conjunct2, THEN conjunct2, THEN conjunct1, THEN mp, OF c] .
  have 4: "(UpstreamError = UpstreamError \<and>
       (\<exists>status msg b.
          provider_503 \<lparr>api_key = None, query = lit ''python'', page = 1\<rparr> = Response status msg b \<and>
          400 \<le> status \<and> status < 600)) \<or>
     UpstreamError = InternalError"
    using get_jobs_error_mapping [where net = provider_503 and key = None
        and q = "lit ''python''" and p = 1 and x = UpstreamError,
        THEN conjunct2, THEN conjunct2, THEN conjunct2, THEN conjunct1, THEN mp, OF 1] .
  from 1 2 3 4 show ?thesis by (intro conjI)
qed

text \<open>
  The claim as first stated fails for a network failure, which is answered with 500, and for a
  missing credential: the request is sent with no key and the provider's answer is mapped as
  any other.
\<close>

theorem get_jobs_network_failure_counterexample:
  "snd (get_jobs provider_down (Some (lit ''secret'')) (lit ''python'') 1) =
     Inl (HTTPException 500 (lit ''Internal server error'')) \<and>
   get_jobs provider_503 None (lit ''python'') 1 =
     ([\<lparr>api_key = None, query = lit ''python'', page = 1\<rparr>],
      Inl (HTTPException 502 (lit ''External API error'')))"
  by (simp add: get_jobs_def fetch_jobs_from_jsearch_def raise_for_status_def
      provider_down_def provider_503_def InternalError_def UpstreamError_def)

end
